theory Spec2Isabelle
  imports Complex_Main "HOL-Library.Sublist"
begin

section \<open>Python values and strings\<close>

text \<open>
  The client of \<^verbatim>\<open>python_a2a.py\<close> handles whatever a bridge sends back: the value that
  \<^verbatim>\<open>r.json()\<close> decodes, or a dictionary built around the raw body. \<open>pyval\<close> is the type of
  those values. A dictionary is an association list with string keys, read with the first
  binding of a key (a decoded dictionary has each key once). A Python \<^verbatim>\<open>float\<close> is only ever
  tested for being zero here, so it is carried as a real number.

  A \<open>string\<close> is a list of characters with codes below 256, read as code points.
\<close>

datatype pyval =
    PNone
  | PBool bool
  | PInt int
  | PFloat real
  | PStr string
  | PList "pyval list"
  | PDict "(string \<times> pyval) list"

type_synonym pydict = "(string \<times> pyval) list"

text \<open>Python's truth value of an object, as \<^verbatim>\<open>not x\<close>, \<^verbatim>\<open>if x\<close> and \<^verbatim>\<open>x or y\<close> test it.\<close>

fun truthy :: "pyval \<Rightarrow> bool" where
  "truthy PNone = False"
| "truthy (PBool b) = b"
| "truthy (PInt i) = (i \<noteq> 0)"
| "truthy (PFloat x) = (x \<noteq> 0)"
| "truthy (PStr s) = (s \<noteq> [])"
| "truthy (PList xs) = (xs \<noteq> [])"
| "truthy (PDict d) = (d \<noteq> [])"

definition py_or :: "pyval \<Rightarrow> pyval \<Rightarrow> pyval" where
  "py_or a b = (if truthy a then a else b)"

text \<open>\<^verbatim>\<open>d.get(k)\<close>: the value under the key, \<^verbatim>\<open>None\<close> when the key is missing.\<close>

definition dict_get :: "pydict \<Rightarrow> string \<Rightarrow> pyval" where
  "dict_get d k = (case map_of d k of None \<Rightarrow> PNone | Some v \<Rightarrow> v)"

text \<open>\<^verbatim>\<open>d.setdefault(k, v)\<close>: a dictionary that has the key is left as it is.\<close>

definition dict_setdefault :: "pydict \<Rightarrow> string \<Rightarrow> pyval \<Rightarrow> pydict" where
  "dict_setdefault d k v = (case map_of d k of None \<Rightarrow> d @ [(k, v)] | Some _ \<Rightarrow> d)"

text \<open>\<^verbatim>\<open>type(x).__name__\<close>.\<close>

fun type_name :: "pyval \<Rightarrow> string" where
  "type_name PNone = ''NoneType''"
| "type_name (PBool _) = ''bool''"
| "type_name (PInt _) = ''int''"
| "type_name (PFloat _) = ''float''"
| "type_name (PStr _) = ''str''"
| "type_name (PList _) = ''list''"
| "type_name (PDict _) = ''dict''"

text \<open>
  Whitespace as \<^verbatim>\<open>str.strip()\<close> sees it among the code points below 256: tab to carriage
  return, the four separators 28 to 31, the space, and the code points 133 and 160.
\<close>

definition is_space :: "char \<Rightarrow> bool" where
  "is_space c = ((of_char c :: nat) \<in> {9, 10, 11, 12, 13, 28, 29, 30, 31, 32, 133, 160})"

definition py_strip :: "string \<Rightarrow> string" where
  "py_strip s = rev (dropWhile is_space (rev (dropWhile is_space s)))"

text \<open>\<^verbatim>\<open>s.rstrip("/")\<close>.\<close>

definition rstrip_slash :: "string \<Rightarrow> string" where
  "rstrip_slash s = rev (dropWhile (\<lambda>c. c = CHR ''/'') (rev s))"

text \<open>
  \<^verbatim>\<open>str.lower()\<close> on code points below 256: the letters A to Z, and the capital letters
  192 to 222 other than the multiplication sign 215, move up by 32.
\<close>

definition lower_char :: "char \<Rightarrow> char" where
  "lower_char c =
     (let n = (of_char c :: nat)
      in if (65 \<le> n \<and> n \<le> 90) \<or> (192 \<le> n \<and> n \<le> 222 \<and> n \<noteq> 215)
         then char_of (n + 32) else c)"

definition py_lower :: "string \<Rightarrow> string" where
  "py_lower s = map lower_char s"

text \<open>\<^verbatim>\<open>s.endswith(suf)\<close> and \<^verbatim>\<open>sub in s\<close>.\<close>

definition endswith :: "string \<Rightarrow> string \<Rightarrow> bool" where
  "endswith s suf = (length suf \<le> length s \<and> drop (length s - length suf) s = suf)"

fun py_in :: "string \<Rightarrow> string \<Rightarrow> bool" where
  "py_in sub [] = (sub = [])"
| "py_in sub (c # cs) = (take (length sub) (c # cs) = sub \<or> py_in sub cs)"

section \<open>Exceptions\<close>

text \<open>
  An instance of \<^verbatim>\<open>Exception\<close>, as far as the client looks at it: its class name
  (\<^verbatim>\<open>type(e).__name__\<close>), its message (\<^verbatim>\<open>str(e)\<close>), and whether it is an instance of
  \<^verbatim>\<open>requests.Timeout\<close>. A failed attribute lookup and a failed \<^verbatim>\<open>r.json()\<close> raise such
  instances (\<^verbatim>\<open>AttributeError\<close>, a decoding error); an exception object is true, as
  \<^verbatim>\<open>if last_err\<close> expects.
\<close>

record py_exception =
  exn_class :: string
  exn_msg :: string
  exn_timeout :: bool

text \<open>
  What a call can raise. The handlers of the client are \<^verbatim>\<open>except Exception\<close> (lines 148
  and 172) and \<^verbatim>\<open>except requests.Timeout\<close> (line 170): they take the instances of
  \<^verbatim>\<open>Exception\<close> and nothing else. An instance of \<^verbatim>\<open>BaseException\<close> that is not an
  \<^verbatim>\<open>Exception\<close>, such as \<^verbatim>\<open>KeyboardInterrupt\<close> or \<^verbatim>\<open>SystemExit\<close>, passes them; it is
  carried with its class name and its message.
\<close>

datatype exn =
    Exception py_exception
  | BaseException string string

text \<open>What \<^verbatim>\<open>x.get\<close> raises when \<^verbatim>\<open>x\<close> is not a dictionary.\<close>

definition no_get_attribute :: "pyval \<Rightarrow> py_exception" where
  "no_get_attribute x =
     \<lparr>exn_class = ''AttributeError'',
      exn_msg = [CHR 0x27] @ type_name x @ [CHR 0x27] @ '' object has no attribute ''
                @ [CHR 0x27] @ ''get'' @ [CHR 0x27],
      exn_timeout = False\<rparr>"

section \<open>Messages and replies\<close>

record TextContent =
  tc_text :: string

record Message =
  role :: string
  content :: TextContent
  conversation_id :: "string option"
  metadata :: "pydict option"
  parent_message_id :: "string option"
  message_id :: "string option"

text \<open>
  The reply. Its conversation id is declared \<^verbatim>\<open>Optional[str]\<close>, and the normaliser stores
  there whatever value the payload carries, so the field holds a \<open>pyval\<close>.
\<close>

record A2AResponse =
  resp_content :: TextContent
  resp_conversation_id :: pyval

definition opt_str :: "string option \<Rightarrow> pyval" where
  "opt_str x = (case x of None \<Rightarrow> PNone | Some s \<Rightarrow> PStr s)"

definition mk_response :: "string \<Rightarrow> pyval \<Rightarrow> A2AResponse" where
  "mk_response t conv = \<lparr>resp_content = \<lparr>tc_text = t\<rparr>, resp_conversation_id = conv\<rparr>"

section \<open>The normaliser \<^verbatim>\<open>_extract_text_and_conv\<close>\<close>

text \<open>Lines 42 to 48: top level, then \<^verbatim>\<open>metadata.conversation_id\<close>, then the fallback.\<close>

definition resolve_conv :: "pydict \<Rightarrow> pyval \<Rightarrow> pyval" where
  "resolve_conv d fallback_conv =
     (let conv = dict_get d ''conversation_id'';
          conv = (if \<not> truthy conv
                  then (case dict_get d ''metadata'' of
                          PDict md \<Rightarrow> dict_get md ''conversation_id''
                        | _ \<Rightarrow> conv)
                  else conv)
      in if \<not> truthy conv then fallback_conv else conv)"

text \<open>Lines 58 to 61: the first of the given keys whose value is a string.\<close>

fun scan_str_keys :: "pydict \<Rightarrow> string list \<Rightarrow> string option" where
  "scan_str_keys d [] = None"
| "scan_str_keys d (k # ks) =
     (case dict_get d k of PStr v \<Rightarrow> Some v | _ \<Rightarrow> scan_str_keys d ks)"

text \<open>Lines 64 to 68: \<^verbatim>\<open>parts[0].text\<close>.\<close>

definition first_part_text :: "pydict \<Rightarrow> string option" where
  "first_part_text d =
     (case dict_get d ''parts'' of
        PList (PDict first # _) \<Rightarrow>
          (case dict_get first ''text'' of PStr t \<Rightarrow> Some t | _ \<Rightarrow> None)
      | _ \<Rightarrow> None)"

text \<open>A message that is a string with something left after stripping (lines 73, 77, 85, 87).\<close>

definition nonblank_str :: "pyval \<Rightarrow> string option" where
  "nonblank_str v = (case v of PStr s \<Rightarrow> if py_strip s \<noteq> [] then Some s else None | _ \<Rightarrow> None)"

text \<open>Lines 71 to 78: the error fields, each a string or a dictionary with a message.\<close>

fun scan_error_keys :: "pydict \<Rightarrow> string list \<Rightarrow> string option" where
  "scan_error_keys d [] = None"
| "scan_error_keys d (key # keys) =
     (let v = dict_get d key
      in case nonblank_str v of
           Some s \<Rightarrow> Some (''[error] '' @ s)
         | None \<Rightarrow>
             (case v of
                PDict vd \<Rightarrow>
                  (case nonblank_str (py_or (dict_get vd ''message'') (dict_get vd ''text'')) of
                     Some m \<Rightarrow> Some (''[error] '' @ m)
                   | None \<Rightarrow> scan_error_keys d keys)
              | _ \<Rightarrow> scan_error_keys d keys))"

text \<open>Lines 80 to 88: the first element of \<^verbatim>\<open>errors\<close>.\<close>

definition first_errors_text :: "pydict \<Rightarrow> string option" where
  "first_errors_text d =
     (case dict_get d ''errors'' of
        PList (first # _) \<Rightarrow>
          (case first of
             PDict fd \<Rightarrow>
               (case nonblank_str (py_or (py_or (dict_get fd ''message'') (dict_get fd ''detail''))
                                         (dict_get fd ''title'')) of
                  Some m \<Rightarrow> Some (''[error] '' @ m)
                | None \<Rightarrow> None)
           | _ \<Rightarrow>
               (case nonblank_str first of
                  Some s \<Rightarrow> Some (''[error] '' @ s)
                | None \<Rightarrow> None))
      | _ \<Rightarrow> None)"

text \<open>Lines 51 to 55: \<^verbatim>\<open>content.text\<close>, or \<^verbatim>\<open>content\<close> itself when it is a string.\<close>

definition content_text :: "pydict \<Rightarrow> string option" where
  "content_text d =
     (case dict_get d ''content'' of
        PDict c \<Rightarrow> (case dict_get c ''text'' of PStr t \<Rightarrow> Some t | _ \<Rightarrow> None)
      | PStr s \<Rightarrow> Some s
      | _ \<Rightarrow> None)"

text \<open>
  Lines 91 to 106, reached when no field gave a text: the payload itself when it is a
  string, then the two synthesised texts. \<open>py_str\<close> is Python's \<^verbatim>\<open>str\<close>, which the
  f-strings apply to the status and to the payload.
\<close>

definition fallback_text :: "(pyval \<Rightarrow> string) \<Rightarrow> pyval \<Rightarrow> pydict \<Rightarrow> string" where
  "fallback_text py_str data d =
     (case data of
        PStr s \<Rightarrow> s
      | _ \<Rightarrow>
          (let status = dict_get d ''_http_status''
           in if truthy status
              then ''(A2A) HTTP '' @ py_str status @ '', body: '' @ py_str data
              else ''(A2A) unexpected response: '' @ py_str data))"

text \<open>The text of the reply for a dictionary \<open>d\<close>, which is the payload \<open>data\<close>: first match wins.\<close>

definition extract_text :: "(pyval \<Rightarrow> string) \<Rightarrow> pyval \<Rightarrow> pydict \<Rightarrow> string" where
  "extract_text py_str data d =
     (case content_text d of Some t \<Rightarrow> t | None \<Rightarrow>
      (case scan_str_keys d [''response'', ''text'', ''message''] of Some t \<Rightarrow> t | None \<Rightarrow>
       (case first_part_text d of Some t \<Rightarrow> t | None \<Rightarrow>
        (case scan_error_keys d [''error'', ''detail'', ''description''] of Some t \<Rightarrow> t | None \<Rightarrow>
         (case first_errors_text d of Some t \<Rightarrow> t | None \<Rightarrow>
          fallback_text py_str data d)))))"

text \<open>
  The whole function. Its first statement is \<^verbatim>\<open>data.get("conversation_id")\<close>, which raises
  \<^verbatim>\<open>AttributeError\<close> on anything that is not a dictionary.
\<close>

definition extract_text_and_conv ::
  "(pyval \<Rightarrow> string) \<Rightarrow> pyval \<Rightarrow> pyval \<Rightarrow> py_exception + A2AResponse" where
  "extract_text_and_conv py_str data fallback_conv =
     (case data of
        PDict d \<Rightarrow> Inr (mk_response (extract_text py_str data d) (resolve_conv d fallback_conv))
      | _ \<Rightarrow> Inl (no_get_attribute data))"

section \<open>The transport\<close>

text \<open>
  \<^verbatim>\<open>requests.post\<close> is the client's only effect. A transport takes the state of the world
  and a request, and gives back either what it raises (an \<^verbatim>\<open>Exception\<close>, or a
  \<^verbatim>\<open>BaseException\<close> that is none, as when the process is interrupted during the call) or
  the response, with the new state of the world. The client reads four things of a
  response: the status code, the \<^verbatim>\<open>Content-Type\<close> header (\<^verbatim>\<open>r.headers.get\<close>, so possibly
  \<^verbatim>\<open>None\<close>), the body as text, and what \<^verbatim>\<open>r.json()\<close> does: the decoded value, or the
  decoding error it raises.
\<close>

record http_request =
  req_url :: string
  req_json :: pyval
  req_timeout :: int
  req_headers :: "(string \<times> string) list"

record http_response =
  status_code :: int
  content_type_header :: "string option"
  body_text :: string
  body_json :: "py_exception + pyval"

type_synonym 'w transport = "'w \<Rightarrow> http_request \<Rightarrow> (exn + http_response) \<times> 'w"

section \<open>The client \<^verbatim>\<open>A2AClient\<close>\<close>

record A2AClient =
  base_url :: string
  timeout :: int

text \<open>Lines 109 to 112.\<close>

definition A2AClient_init :: "string option \<Rightarrow> int \<Rightarrow> A2AClient" where
  "A2AClient_init url t =
     \<lparr>base_url = rstrip_slash (case url of None \<Rightarrow> [] | Some s \<Rightarrow> s), timeout = t\<rparr>"

text \<open>Lines 122 to 130: the candidate addresses, in the order they are appended.\<close>

definition candidates :: "string \<Rightarrow> string list" where
  "candidates base =
     (let cs = (if \<not> endswith base ''/a2a'' then [base @ ''/a2a''] else [])
      in cs @ [base, base @ ''/send'', base @ ''/message'', base @ ''/messages''])"

text \<open>Line 136: the request sent to one address.\<close>

definition mk_request :: "string \<Rightarrow> pyval \<Rightarrow> int \<Rightarrow> http_request" where
  "mk_request url json_payload t =
     \<lparr>req_url = url, req_json = json_payload, req_timeout = t,
      req_headers = [(''Content-Type'', ''application/json'')]\<rparr>"

text \<open>Lines 137 to 147: from the response to the value handed to the normaliser.\<close>

definition decode_response :: "http_response \<Rightarrow> pyval" where
  "decode_response r =
     (let ctype = py_lower (case content_type_header r of None \<Rightarrow> [] | Some h \<Rightarrow> h);
          data = (if py_in ''application/json'' ctype
                  then (case body_json r of
                          Inr v \<Rightarrow> v
                        | Inl _ \<Rightarrow> PDict [(''response'', PStr (body_text r))])
                  else PDict [(''response'', PStr (body_text r))])
      in case data of
           PDict d \<Rightarrow> PDict (dict_setdefault d ''_http_status'' (PInt (status_code r)))
         | _ \<Rightarrow> data)"

text \<open>
  Lines 133 to 153: the loop over the candidates. An attempt that raises an \<^verbatim>\<open>Exception\<close>
  is remembered in \<open>last_err\<close> and the loop goes on (line 148 is \<^verbatim>\<open>except Exception\<close>); an
  attempt that returns ends the loop; an attempt that raises anything else ends the loop
  too, the exception leaving the function. After the loop the last exception is raised,
  and \<^verbatim>\<open>None\<close> is returned when there was none.
\<close>

fun try_candidates ::
  "'w transport \<Rightarrow> pyval \<Rightarrow> int \<Rightarrow> string list \<Rightarrow> py_exception option \<Rightarrow> 'w
     \<Rightarrow> (exn + pyval) \<times> 'w" where
  "try_candidates post json_payload t [] last_err w =
     (case last_err of Some e \<Rightarrow> (Inl (Exception e), w) | None \<Rightarrow> (Inr PNone, w))"
| "try_candidates post json_payload t (url # urls) last_err w =
     (case post w (mk_request url json_payload t) of
        (Inr r, w') \<Rightarrow> (Inr (decode_response r), w')
      | (Inl (Exception e), w') \<Rightarrow> try_candidates post json_payload t urls (Some e) w'
      | (Inl (BaseException c m), w') \<Rightarrow> (Inl (BaseException c m), w'))"

definition try_post :: "A2AClient \<Rightarrow> 'w transport \<Rightarrow> pyval \<Rightarrow> 'w \<Rightarrow> (exn + pyval) \<times> 'w" where
  "try_post self post json_payload w =
     try_candidates post json_payload (timeout self) (candidates (base_url self)) None w"

text \<open>Lines 159 to 166: the request body.\<close>

definition message_payload :: "Message \<Rightarrow> pyval" where
  "message_payload message =
     PDict [(''role'', PStr (role message)),
            (''content'', PDict [(''type'', PStr ''text''),
                                 (''text'', PStr (tc_text (content message)))]),
            (''conversation_id'', opt_str (conversation_id message)),
            (''metadata'', PDict (case metadata message of
                                    None \<Rightarrow> []
                                  | Some md \<Rightarrow> md)),
            (''parent_message_id'', opt_str (parent_message_id message)),
            (''message_id'', opt_str (message_id message))]"

text \<open>Lines 168 and 169: the body of the \<^verbatim>\<open>try\<close> statement.\<close>

definition send_attempt ::
  "A2AClient \<Rightarrow> (pyval \<Rightarrow> string) \<Rightarrow> 'w transport \<Rightarrow> Message \<Rightarrow> 'w \<Rightarrow> (exn + A2AResponse) \<times> 'w" where
  "send_attempt self py_str post message w =
     (case try_post self post (message_payload message) w of
        (Inl e, w') \<Rightarrow> (Inl e, w')
      | (Inr data, w') \<Rightarrow>
          (case extract_text_and_conv py_str data (opt_str (conversation_id message)) of
             Inl e \<Rightarrow> (Inl (Exception e), w')
           | Inr reply \<Rightarrow> (Inr reply, w')))"

text \<open>
  Lines 155 to 173. The first handler takes the instances of \<^verbatim>\<open>requests.Timeout\<close>, the
  second every other instance of \<^verbatim>\<open>Exception\<close>. What is not an \<^verbatim>\<open>Exception\<close> has no
  handler and leaves \<^verbatim>\<open>send_message\<close>.
\<close>

definition send_message ::
  "A2AClient \<Rightarrow> (pyval \<Rightarrow> string) \<Rightarrow> 'w transport \<Rightarrow> Message \<Rightarrow> 'w \<Rightarrow> (exn + A2AResponse) \<times> 'w" where
  "send_message self py_str post message w =
     (case send_attempt self py_str post message w of
        (Inr reply, w') \<Rightarrow> (Inr reply, w')
      | (Inl (Exception e), w') \<Rightarrow>
          if exn_timeout e
          then (Inr (mk_response ''[error] request timeout''
                       (opt_str (conversation_id message))), w')
          else (Inr (mk_response (''[error] '' @ exn_class e @ '': '' @ exn_msg e)
                       (opt_str (conversation_id message))), w')
      | (Inl (BaseException c m), w') \<Rightarrow> (Inl (BaseException c m), w'))"

section \<open>Describing a run of the transport\<close>

text \<open>
  \<open>attempts\<close> lists what the transport does when the given addresses are posted to one
  after the other: for each address the outcome of the attempt and the state of the world
  after it. The loop of \<open>try_candidates\<close> makes these very attempts, up to the first one
  that returns a response.
\<close>

fun attempts ::
  "'w transport \<Rightarrow> pyval \<Rightarrow> int \<Rightarrow> string list \<Rightarrow> 'w \<Rightarrow> ((exn + http_response) \<times> 'w) list" where
  "attempts post json_payload t [] w = []"
| "attempts post json_payload t (url # urls) w =
     (let a = post w (mk_request url json_payload t)
      in a # attempts post json_payload t urls (snd a))"

text \<open>
  A stub transport for concrete runs: the world is the list of outcomes still to be
  played and the addresses posted to so far. Each call plays the next outcome and records
  its address; once the list is used up the connection is refused.
\<close>

definition connection_refused :: py_exception where
  "connection_refused =
     \<lparr>exn_class = ''ConnectionError'', exn_msg = ''connection refused'', exn_timeout = False\<rparr>"

definition read_timeout :: py_exception where
  "read_timeout =
     \<lparr>exn_class = ''ReadTimeout'', exn_msg = ''read timed out'', exn_timeout = True\<rparr>"

definition scripted_post :: "((exn + http_response) list \<times> string list) transport" where
  "scripted_post w q =
     (case fst w of
        [] \<Rightarrow> (Inl (Exception connection_refused), ([], snd w @ [req_url q]))
      | out # outs \<Rightarrow> (out, (outs, snd w @ [req_url q])))"

text \<open>What the call raises when the process is interrupted while it waits for the bridge.\<close>

definition keyboard_interrupt :: exn where
  "keyboard_interrupt = BaseException ''KeyboardInterrupt'' []"

text \<open>A response of content type JSON with the given body text, which decodes to \<open>v\<close>.\<close>

definition json_response :: "int \<Rightarrow> string \<Rightarrow> pyval \<Rightarrow> http_response" where
  "json_response st body v =
     \<lparr>status_code = st, content_type_header = Some ''application/json; charset=utf-8'',
      body_text = body, body_json = Inr v\<rparr>"

text \<open>What \<^verbatim>\<open>r.json()\<close> raises on a body that is not JSON.\<close>

definition json_decode_error :: py_exception where
  "json_decode_error =
     \<lparr>exn_class = ''JSONDecodeError'', exn_msg = ''Expecting value: line 1 column 1 (char 0)'',
      exn_timeout = False\<rparr>"

definition local_client :: A2AClient where
  "local_client = A2AClient_init (Some ''http://localhost:6000/'') 60"

definition hello_message :: Message where
  "hello_message =
     \<lparr>role = ''user'', content = \<lparr>tc_text = ''hello''\<rparr>, conversation_id = Some ''c1'',
      metadata = None, parent_message_id = None, message_id = None\<rparr>"

text \<open>A stand-in for Python's \<^verbatim>\<open>str\<close> in concrete runs: it only names the type of the value.\<close>

definition type_str :: "pyval \<Rightarrow> string" where
  "type_str v = ''<'' @ type_name v @ ''>''"

section \<open>Facts about dictionaries and strings\<close>

lemma dict_get_Some: "map_of d k = Some v \<Longrightarrow> dict_get d k = v"
  by (simp add: dict_get_def)

lemma dict_get_None: "map_of d k = None \<Longrightarrow> dict_get d k = PNone"
  by (simp add: dict_get_def)

lemma py_strip_boom: "py_strip ''boom'' = ''boom''"
  by (simp add: py_strip_def is_space_def)

lemma endswith_suffix: "endswith s suf \<longleftrightarrow> suffix suf s"
proof
  assume "endswith s suf"
  then have "s = take (length s - length suf) s @ suf"
    by (metis append_take_drop_id endswith_def)
  then show "suffix suf s"
    by (metis suffixI)
next
  assume "suffix suf s"
  then obtain p where "s = p @ suf"
    by (auto simp: suffix_def)
  then show "endswith s suf"
    by (simp add: endswith_def)
qed

lemma py_in_sublist: "py_in sub s \<longleftrightarrow> sublist sub s"
proof (induction s)
  case Nil
  then show ?case by auto
next
  case (Cons c cs)
  have "take (length sub) (c # cs) = sub \<longleftrightarrow> prefix sub (c # cs)"
    by (metis append_eq_conv_conj prefix_def)
  with Cons show ?case
    by (cases sub) (auto simp: sublist_Cons_right)
qed

section \<open>The text of the reply\<close>

text \<open>
  C3. A payload that is a mapping with \<^verbatim>\<open>{"content": {"text": T}}\<close>, \<open>T\<close> a string, is
  normalised to the text \<open>T\<close>, whatever else the mapping holds. Nothing is assumed of the
  other keys, so this is also the answer when a top-level string \<^verbatim>\<open>response\<close> is there:
  rule 1 is applied before rule 3.
\<close>

theorem content_text_first:
  assumes "map_of d ''content'' = Some (PDict c)"
      and "map_of c ''text'' = Some (PStr T)"
  shows "extract_text_and_conv py_str (PDict d) fallback_conv
           = Inr (mk_response T (resolve_conv d fallback_conv))
         \<and> (map_of d ''response'' = Some (PStr R) \<longrightarrow>
              (\<exists>conv. extract_text_and_conv py_str (PDict d) fallback_conv
                        = Inr (mk_response T conv)))"
proof -
  have "extract_text_and_conv py_str (PDict d) fallback_conv
          = Inr (mk_response T (resolve_conv d fallback_conv))"
    using assms
    by (simp add: extract_text_and_conv_def extract_text_def content_text_def dict_get_Some)
  then show ?thesis by blast
qed

theorem content_text_first_witness:
  "map_of [(''response'', PStr ''other''), (''content'', PDict [(''text'', PStr ''hi'')])]
          ''content'' = Some (PDict [(''text'', PStr ''hi'')])
   \<and> map_of [(''text'', PStr ''hi'')] ''text'' = Some (PStr ''hi'')
   \<and> map_of [(''response'', PStr ''other''), (''content'', PDict [(''text'', PStr ''hi'')])]
          ''response'' = Some (PStr ''other'')
   \<and> extract_text_and_conv type_str
        (PDict [(''response'', PStr ''other''), (''content'', PDict [(''text'', PStr ''hi'')])])
        (PStr ''c1'')
      = Inr (mk_response ''hi'' (PStr ''c1''))"
proof -
  let ?c = "[(''text'', PStr ''hi'')]"
  let ?d = "[(''response'', PStr ''other''), (''content'', PDict ?c)]"
  have h1: "map_of ?d ''content'' = Some (PDict ?c)" by simp
  have h2: "map_of ?c ''text'' = Some (PStr ''hi'')" by simp
  have h3: "map_of ?d ''response'' = Some (PStr ''other'')" by simp
  have "resolve_conv ?d (PStr ''c1'') = PStr ''c1''"
    by (simp add: resolve_conv_def dict_get_def)
  with content_text_first [OF h1 h2, of type_str "PStr ''c1''" "''other''"] h1 h2 h3
  show ?thesis by simp
qed

text \<open>
  C9. A payload that is a mapping with \<^verbatim>\<open>{"error": "boom"}\<close> and without the keys
  \<^verbatim>\<open>content\<close>, \<^verbatim>\<open>response\<close>, \<^verbatim>\<open>text\<close>, \<^verbatim>\<open>message\<close> and \<^verbatim>\<open>parts\<close> is normalised to a reply
  (a returned value, not an exception) whose text is the error marker \<^verbatim>\<open>[error] \<close>
  followed by \<^verbatim>\<open>boom\<close>.
\<close>

theorem error_field_reply:
  assumes "map_of d ''error'' = Some (PStr ''boom'')"
      and "map_of d ''content'' = None"
      and "map_of d ''response'' = None"
      and "map_of d ''text'' = None"
      and "map_of d ''message'' = None"
      and "map_of d ''parts'' = None"
  shows "extract_text_and_conv py_str (PDict d) fallback_conv
           = Inr (mk_response (''[error] '' @ ''boom'') (resolve_conv d fallback_conv))"
  using assms
  by (simp add: extract_text_and_conv_def extract_text_def content_text_def first_part_text_def
        nonblank_str_def py_strip_boom dict_get_Some dict_get_None)

theorem error_field_reply_witness:
  "map_of [(''error'', PStr ''boom''), (''_http_status'', PInt 500)] ''error''
     = Some (PStr ''boom'')
   \<and> map_of [(''error'', PStr ''boom''), (''_http_status'', PInt 500)] ''content'' = None
   \<and> map_of [(''error'', PStr ''boom''), (''_http_status'', PInt 500)] ''response'' = None
   \<and> map_of [(''error'', PStr ''boom''), (''_http_status'', PInt 500)] ''text'' = None
   \<and> map_of [(''error'', PStr ''boom''), (''_http_status'', PInt 500)] ''message'' = None
   \<and> map_of [(''error'', PStr ''boom''), (''_http_status'', PInt 500)] ''parts'' = None
   \<and> extract_text_and_conv type_str
        (PDict [(''error'', PStr ''boom''), (''_http_status'', PInt 500)]) (PStr ''c1'')
      = Inr (mk_response ''[error] boom'' (PStr ''c1''))"
proof -
  let ?d = "[(''error'', PStr ''boom''), (''_http_status'', PInt 500)]"
  have h: "map_of ?d ''error'' = Some (PStr ''boom'')"
    by simp
  have n: "map_of ?d ''content'' = None" "map_of ?d ''response'' = None"
    "map_of ?d ''text'' = None" "map_of ?d ''message'' = None" "map_of ?d ''parts'' = None"
    by simp_all
  have "resolve_conv ?d (PStr ''c1'') = PStr ''c1''"
    by (simp add: resolve_conv_def dict_get_def)
  with error_field_reply [OF h n, of type_str "PStr ''c1''"] h n
  show ?thesis by simp
qed

section \<open>The conversation id of the reply\<close>

text \<open>
  C4, as the specification words it, takes the top-level conversation id whenever the
  payload has one. The code tests the value with \<^verbatim>\<open>not conv\<close>: a payload whose top-level
  conversation id is the empty string has the field, and the reply carries the outbound
  id \<^verbatim>\<open>c1\<close> instead of it.
\<close>

theorem conversation_id_present_but_empty_counterexample:
  "map_of [(''conversation_id'', PStr '''')] ''conversation_id'' = Some (PStr '''')
   \<and> resolve_conv [(''conversation_id'', PStr '''')] (PStr ''c1'') = PStr ''c1''
   \<and> resolve_conv [(''conversation_id'', PStr '''')] (PStr ''c1'') \<noteq> PStr ''''"
  by (simp add: resolve_conv_def dict_get_def)

text \<open>
  C4, amended. For every payload that is a mapping and every outbound conversation id,
  the conversation id of the reply is the top-level \<^verbatim>\<open>conversation_id\<close> of the payload when
  that value is true in Python's sense (there, and not \<^verbatim>\<open>None\<close>, empty, zero or false);
  else the \<^verbatim>\<open>conversation_id\<close> of the payload's \<^verbatim>\<open>metadata\<close> when \<^verbatim>\<open>metadata\<close> is a mapping
  and that value is true; else the outbound id. With the outbound id \<^verbatim>\<open>c1\<close>, the response
  \<^verbatim>\<open>{"conversation_id": "c2"}\<close> gives \<^verbatim>\<open>c2\<close>, and a response with no conversation id anywhere
  gives \<^verbatim>\<open>c1\<close>.
\<close>

theorem conversation_id_priority:
  "extract_text_and_conv py_str (PDict d) fallback_conv =
     Inr (mk_response (extract_text py_str (PDict d) d)
           (let top = dict_get d ''conversation_id'';
                nested = (case dict_get d ''metadata'' of
                            PDict md \<Rightarrow> dict_get md ''conversation_id''
                          | _ \<Rightarrow> PNone)
            in if truthy top then top
               else if truthy nested then nested
               else fallback_conv))
   \<and> resolve_conv [(''conversation_id'', PStr ''c2'')] (PStr ''c1'') = PStr ''c2''
   \<and> resolve_conv [(''response'', PStr ''hi'')] (PStr ''c1'') = PStr ''c1''"
proof -
  have "resolve_conv d fallback_conv =
     (let top = dict_get d ''conversation_id'';
          nested = (case dict_get d ''metadata'' of
                      PDict md \<Rightarrow> dict_get md ''conversation_id'' | _ \<Rightarrow> PNone)
      in if truthy top then top else if truthy nested then nested else fallback_conv)"
    by (auto simp add: resolve_conv_def Let_def split: pyval.splits)
  moreover have "resolve_conv [(''conversation_id'', PStr ''c2'')] (PStr ''c1'') = PStr ''c2''"
    by (simp add: resolve_conv_def dict_get_def)
  moreover have "resolve_conv [(''response'', PStr ''hi'')] (PStr ''c1'') = PStr ''c1''"
    by (simp add: resolve_conv_def dict_get_def)
  ultimately show ?thesis
    by (simp add: extract_text_and_conv_def)
qed

text \<open>
  C10. A top-level conversation id that is the empty string counts as absent: for every
  mapping whose top-level \<^verbatim>\<open>conversation_id\<close> is \<^verbatim>\<open>""\<close>, the conversation id of the reply is
  \<^verbatim>\<open>metadata.conversation_id\<close> when \<^verbatim>\<open>metadata\<close> is a mapping holding a true value there, and
  the outbound id otherwise. The reply's id is the empty string only when the outbound id
  is.
\<close>

theorem empty_top_level_id_is_absent:
  assumes "map_of d ''conversation_id'' = Some (PStr '''')"
  shows "extract_text_and_conv py_str (PDict d) fallback_conv =
     Inr (mk_response (extract_text py_str (PDict d) d)
           (let nested = (case dict_get d ''metadata'' of
                            PDict md \<Rightarrow> dict_get md ''conversation_id''
                          | _ \<Rightarrow> PNone)
            in if truthy nested then nested else fallback_conv))
     \<and> (fallback_conv \<noteq> PStr '''' \<longrightarrow> resolve_conv d fallback_conv \<noteq> PStr '''')"
proof -
  have top: "dict_get d ''conversation_id'' = PStr ''''"
    using assms by (rule dict_get_Some)
  have r: "resolve_conv d fallback_conv =
     (let nested = (case dict_get d ''metadata'' of
                      PDict md \<Rightarrow> dict_get md ''conversation_id'' | _ \<Rightarrow> PNone)
      in if truthy nested then nested else fallback_conv)"
    by (auto simp add: resolve_conv_def top Let_def split: pyval.splits)
  have "fallback_conv \<noteq> PStr '''' \<longrightarrow> resolve_conv d fallback_conv \<noteq> PStr ''''"
    unfolding r by (auto simp: Let_def)
  with r show ?thesis
    by (simp add: extract_text_and_conv_def)
qed

theorem empty_top_level_id_is_absent_witness:
  "map_of [(''conversation_id'', PStr ''''),
           (''metadata'', PDict [(''conversation_id'', PStr ''m1'')])]
      ''conversation_id'' = Some (PStr '''')
   \<and> PStr ''c1'' \<noteq> PStr ''''
   \<and> resolve_conv [(''conversation_id'', PStr ''''),
                    (''metadata'', PDict [(''conversation_id'', PStr ''m1'')])]
        (PStr ''c1'') = PStr ''m1''
   \<and> (\<exists>t. extract_text_and_conv type_str
              (PDict [(''conversation_id'', PStr ''''),
                      (''metadata'', PDict [(''conversation_id'', PStr ''m1'')])])
              (PStr ''c1'') = Inr (mk_response t (PStr ''m1'')))"
proof -
  let ?d = "[(''conversation_id'', PStr ''''),
             (''metadata'', PDict [(''conversation_id'', PStr ''m1'')])]"
  have h: "map_of ?d ''conversation_id'' = Some (PStr '''')" by simp
  have "resolve_conv ?d (PStr ''c1'') = PStr ''m1''"
    by (simp add: resolve_conv_def dict_get_def)
  moreover have "extract_text_and_conv type_str (PDict ?d) (PStr ''c1'')
     = Inr (mk_response (extract_text type_str (PDict ?d) ?d) (PStr ''m1''))"
    using empty_top_level_id_is_absent [OF h, of type_str "PStr ''c1''"]
    by (simp add: dict_get_def)
  ultimately show ?thesis using h by blast
qed

section \<open>A payload that is a bare string\<close>

text \<open>
  C5 says that a payload that is a bare string becomes the text of the reply. The
  function's docstring lists the bare string among the shapes it accepts, and line 91
  tests for it; but line 42 has already called \<^verbatim>\<open>data.get\<close>, which a string does not have.
  So the normaliser raises \<^verbatim>\<open>AttributeError\<close>, and \<^verbatim>\<open>send_message\<close>, given a JSON response
  whose body is the string \<^verbatim>\<open>"hello"\<close>, replies with an error text instead of \<^verbatim>\<open>hello\<close>.
\<close>

theorem bare_string_payload_raises:
  "extract_text_and_conv py_str (PStr ''hello'') fallback_conv
     = Inl (no_get_attribute (PStr ''hello''))
   \<and> send_message local_client py_str scripted_post hello_message
        ([Inr (json_response 200 ([CHR 0x22] @ ''hello'' @ [CHR 0x22]) (PStr ''hello''))], [])
     = (Inr (mk_response (''[error] AttributeError: '' @ [CHR 0x27] @ ''str'' @ [CHR 0x27]
                            @ '' object has no attribute '' @ [CHR 0x27] @ ''get'' @ [CHR 0x27])
               (PStr ''c1'')),
        ([], [''http://localhost:6000/a2a'']))"
proof (rule conjI)
  show "extract_text_and_conv py_str (PStr ''hello'') fallback_conv
          = Inl (no_get_attribute (PStr ''hello''))"
    by (simp add: extract_text_and_conv_def)
next
  show "send_message local_client py_str scripted_post hello_message
        ([Inr (json_response 200 ([CHR 0x22] @ ''hello'' @ [CHR 0x22]) (PStr ''hello''))], [])
     = (Inr (mk_response (''[error] AttributeError: '' @ [CHR 0x27] @ ''str'' @ [CHR 0x27]
                            @ '' object has no attribute '' @ [CHR 0x27] @ ''get'' @ [CHR 0x27])
               (PStr ''c1'')),
        ([], [''http://localhost:6000/a2a'']))"
    by (simp add: send_message_def send_attempt_def try_post_def local_client_def A2AClient_init_def
        rstrip_slash_def candidates_def endswith_def scripted_post_def mk_request_def
        json_response_def decode_response_def py_lower_def lower_char_def
        extract_text_and_conv_def no_get_attribute_def hello_message_def opt_str_def)
qed

section \<open>Facts about the loop over the candidates\<close>

lemma length_attempts: "length (attempts post p t urls w) = length urls"
  by (induction urls arbitrary: w) (simp_all add: Let_def)

lemma candidates_nonempty: "candidates base \<noteq> []"
  by (simp add: candidates_def)

lemma candidates_list:
  "candidates base =
     (if suffix ''/a2a'' base then [] else [base @ ''/a2a''])
     @ [base, base @ ''/send'', base @ ''/message'', base @ ''/messages'']"
  by (simp add: candidates_def endswith_suffix)

text \<open>
  When every attempt raises an \<^verbatim>\<open>Exception\<close>, the loop ends by raising the exception of
  the last one.
\<close>

lemma try_candidates_all_raise:
  assumes "urls \<noteq> []"
      and "\<forall>a \<in> set (attempts post p t urls w). \<exists>e. fst a = Inl (Exception e)"
      and "last (attempts post p t urls w) = (Inl (Exception e), w')"
  shows "try_candidates post p t urls last_err w = (Inl (Exception e), w')"
  using assms
proof (induction urls arbitrary: last_err w)
  case Nil
  then show ?case by simp
next
  case (Cons url urls)
  obtain out w1 where step: "post w (mk_request url p t) = (out, w1)"
    by (cases "post w (mk_request url p t)")
  from Cons.prems(2) step obtain e1 where out: "out = Inl (Exception e1)"
    by (auto simp: Let_def)
  show ?case
  proof (cases "urls = []")
    case True
    with Cons.prems(3) step out show ?thesis
      by (simp add: Let_def)
  next
    case False
    have "try_candidates post p t urls (Some e1) w1 = (Inl (Exception e), w')"
    proof (rule Cons.IH [OF False])
      show "\<forall>a \<in> set (attempts post p t urls w1). \<exists>e. fst a = Inl (Exception e)"
        using Cons.prems(2) step by (simp add: Let_def)
      have "attempts post p t urls w1 \<noteq> []"
        using False length_attempts [of post p t urls w1] by auto
      then show "last (attempts post p t urls w1) = (Inl (Exception e), w')"
        using Cons.prems(3) step by (simp add: Let_def)
    qed
    with step out show ?thesis by simp
  qed
qed

text \<open>
  When the attempts before the \<open>k\<close>-th raise an \<^verbatim>\<open>Exception\<close> and the \<open>k\<close>-th returns, the
  loop ends there.
\<close>

lemma try_candidates_first_success:
  assumes "k < length urls"
      and "\<forall>i<k. \<exists>e. fst (attempts post p t urls w ! i) = Inl (Exception e)"
      and "attempts post p t urls w ! k = (Inr r, w')"
  shows "try_candidates post p t urls last_err w = (Inr (decode_response r), w')"
  using assms
proof (induction urls arbitrary: k last_err w)
  case Nil
  then show ?case by simp
next
  case (Cons url urls)
  obtain out w1 where step: "post w (mk_request url p t) = (out, w1)"
    by (cases "post w (mk_request url p t)")
  show ?case
  proof (cases k)
    case 0
    with Cons.prems(3) step have "out = Inr r" "w1 = w'"
      by (simp_all add: Let_def)
    with step show ?thesis by simp
  next
    case (Suc j)
    from Cons.prems(2) Suc step obtain e1 where out: "out = Inl (Exception e1)"
      by (auto simp: Let_def dest: spec [of _ 0])
    have "try_candidates post p t urls (Some e1) w1 = (Inr (decode_response r), w')"
    proof (rule Cons.IH [of j])
      show "j < length urls" using Cons.prems(1) Suc by simp
      show "\<forall>i<j. \<exists>e. fst (attempts post p t urls w1 ! i) = Inl (Exception e)"
      proof (intro allI impI)
        fix i assume "i < j"
        then have "Suc i < k" using Suc by simp
        with Cons.prems(2)
        have "\<exists>e. fst (attempts post p t (url # urls) w ! Suc i) = Inl (Exception e)"
          by blast
        with step show "\<exists>e. fst (attempts post p t urls w1 ! i) = Inl (Exception e)"
          by (simp add: Let_def)
      qed
      show "attempts post p t urls w1 ! j = (Inr r, w')"
        using Cons.prems(3) Suc step by (simp add: Let_def)
    qed
    with step out show ?thesis by simp
  qed
qed

text \<open>
  When no attempt raises anything but an \<^verbatim>\<open>Exception\<close>, neither does the loop: it returns
  a value or raises an \<^verbatim>\<open>Exception\<close>.
\<close>

lemma try_candidates_no_base:
  assumes "\<forall>a \<in> set (attempts post p t urls w). \<forall>c m. fst a \<noteq> Inl (BaseException c m)"
  shows "fst (try_candidates post p t urls last_err w) \<noteq> Inl (BaseException c m)"
  using assms
proof (induction urls arbitrary: last_err w)
  case Nil
  then show ?case by (simp split: option.splits)
next
  case (Cons url urls)
  obtain out w1 where step: "post w (mk_request url p t) = (out, w1)"
    by (cases "post w (mk_request url p t)")
  show ?case
  proof (cases out)
    case (Inr r)
    with step show ?thesis by simp
  next
    case (Inl x)
    from Cons.prems step Inl obtain e1 where x: "x = Exception e1"
      by (cases x) (auto simp: Let_def)
    have "fst (try_candidates post p t urls (Some e1) w1) \<noteq> Inl (BaseException c m)"
    proof (rule Cons.IH)
      show "\<forall>a \<in> set (attempts post p t urls w1). \<forall>c m. fst a \<noteq> Inl (BaseException c m)"
        using Cons.prems step by (simp add: Let_def)
    qed
    with step Inl x show ?thesis by simp
  qed
qed

text \<open>The candidates of the client at \<^verbatim>\<open>http://localhost:6000/\<close>, and three runs of the stub.\<close>

lemma local_candidates:
  "candidates (base_url local_client) =
     [''http://localhost:6000/a2a'', ''http://localhost:6000'', ''http://localhost:6000/send'',
      ''http://localhost:6000/message'', ''http://localhost:6000/messages'']"
  by (simp add: local_client_def A2AClient_init_def rstrip_slash_def candidates_def endswith_def)

lemma local_timeout: "timeout local_client = 60"
  by (simp add: local_client_def A2AClient_init_def)

lemma run_refused_then_answered:
  "attempts scripted_post p 60 (candidates (base_url local_client))
     ([Inl (Exception connection_refused), Inr r], [])
   = [(Inl (Exception connection_refused), ([Inr r], [''http://localhost:6000/a2a''])),
      (Inr r, ([], [''http://localhost:6000/a2a'', ''http://localhost:6000''])),
      (Inl (Exception connection_refused),
       ([], [''http://localhost:6000/a2a'', ''http://localhost:6000'',
             ''http://localhost:6000/send''])),
      (Inl (Exception connection_refused),
       ([], [''http://localhost:6000/a2a'', ''http://localhost:6000'',
             ''http://localhost:6000/send'', ''http://localhost:6000/message''])),
      (Inl (Exception connection_refused),
       ([], [''http://localhost:6000/a2a'', ''http://localhost:6000'',
             ''http://localhost:6000/send'', ''http://localhost:6000/message'',
             ''http://localhost:6000/messages'']))]"
  by (simp add: local_candidates scripted_post_def mk_request_def Let_def)

lemma run_timeout_then_refused:
  "attempts scripted_post p 60 (candidates (base_url local_client))
     ([Inl (Exception read_timeout)], [])
   = [(Inl (Exception read_timeout), ([], [''http://localhost:6000/a2a''])),
      (Inl (Exception connection_refused),
       ([], [''http://localhost:6000/a2a'', ''http://localhost:6000''])),
      (Inl (Exception connection_refused),
       ([], [''http://localhost:6000/a2a'', ''http://localhost:6000'',
             ''http://localhost:6000/send''])),
      (Inl (Exception connection_refused),
       ([], [''http://localhost:6000/a2a'', ''http://localhost:6000'',
             ''http://localhost:6000/send'', ''http://localhost:6000/message''])),
      (Inl (Exception connection_refused),
       ([], [''http://localhost:6000/a2a'', ''http://localhost:6000'',
             ''http://localhost:6000/send'', ''http://localhost:6000/message'',
             ''http://localhost:6000/messages'']))]"
  by (simp add: local_candidates scripted_post_def mk_request_def Let_def)

lemma run_all_timeouts:
  "attempts scripted_post p 60 (candidates (base_url local_client))
     ([Inl (Exception read_timeout), Inl (Exception read_timeout),
       Inl (Exception read_timeout), Inl (Exception read_timeout),
       Inl (Exception read_timeout)], [])
   = [(Inl (Exception read_timeout),
       ([Inl (Exception read_timeout), Inl (Exception read_timeout),
         Inl (Exception read_timeout), Inl (Exception read_timeout)],
        [''http://localhost:6000/a2a''])),
      (Inl (Exception read_timeout),
       ([Inl (Exception read_timeout), Inl (Exception read_timeout),
         Inl (Exception read_timeout)],
        [''http://localhost:6000/a2a'', ''http://localhost:6000''])),
      (Inl (Exception read_timeout),
       ([Inl (Exception read_timeout), Inl (Exception read_timeout)],
        [''http://localhost:6000/a2a'', ''http://localhost:6000'',
         ''http://localhost:6000/send''])),
      (Inl (Exception read_timeout),
       ([Inl (Exception read_timeout)],
        [''http://localhost:6000/a2a'', ''http://localhost:6000'',
         ''http://localhost:6000/send'', ''http://localhost:6000/message''])),
      (Inl (Exception read_timeout),
       ([], [''http://localhost:6000/a2a'', ''http://localhost:6000'',
             ''http://localhost:6000/send'', ''http://localhost:6000/message'',
             ''http://localhost:6000/messages'']))]"
  by (simp add: local_candidates scripted_post_def mk_request_def Let_def)

lemma decode_hi:
  "decode_response (json_response 500 body (PDict [(''response'', PStr ''hi'')]))
     = PDict [(''response'', PStr ''hi''), (''_http_status'', PInt 500)]"
  by (simp add: decode_response_def json_response_def py_lower_def lower_char_def
      dict_setdefault_def)

section \<open>The endpoint fallback\<close>

text \<open>
  C2. For every base address the candidates are, in this order, the base with \<^verbatim>\<open>/a2a\<close>
  (left out when the base ends with \<^verbatim>\<open>/a2a\<close>), the base itself, and the base with
  \<^verbatim>\<open>/send\<close>, \<^verbatim>\<open>/message\<close> and \<^verbatim>\<open>/messages\<close>. They are attempted in that order, and the first
  attempt that returns a response is final: when the attempts before the \<open>k\<close>-th raise a
  transport exception (an \<^verbatim>\<open>Exception\<close>, which line 148 catches) and the \<open>k\<close>-th returns the
  response \<open>r\<close>, whatever its status code, \<^verbatim>\<open>_try_post\<close> returns \<open>r\<close> decoded, and the world is
  left as that attempt left it, so that no later candidate is posted to. With \<open>k = 1\<close>:
  the first candidate raises, the second answers, and the result is the second one's
  decoded response.
\<close>

theorem try_post_first_answer_is_final:
  assumes "k < length (candidates (base_url self))"
      and "\<forall>i<k. \<exists>e. fst (attempts post p (timeout self) (candidates (base_url self)) w ! i)
                        = Inl (Exception e)"
      and "attempts post p (timeout self) (candidates (base_url self)) w ! k = (Inr r, w')"
  shows "candidates (base_url self) =
           (if suffix ''/a2a'' (base_url self) then [] else [base_url self @ ''/a2a''])
           @ [base_url self, base_url self @ ''/send'', base_url self @ ''/message'',
              base_url self @ ''/messages'']
         \<and> try_post self post p w = (Inr (decode_response r), w')"
  using try_candidates_first_success [OF assms] candidates_list
  by (simp add: try_post_def)

theorem try_post_first_answer_is_final_witness:
  "fst (attempts scripted_post (message_payload hello_message) (timeout local_client)
          (candidates (base_url local_client))
          ([Inl (Exception connection_refused),
            Inr (json_response 500 [] (PDict [(''response'', PStr ''hi'')]))], []) ! 0)
     = Inl (Exception connection_refused)
   \<and> attempts scripted_post (message_payload hello_message) (timeout local_client)
        (candidates (base_url local_client))
        ([Inl (Exception connection_refused),
          Inr (json_response 500 [] (PDict [(''response'', PStr ''hi'')]))], []) ! 1
      = (Inr (json_response 500 [] (PDict [(''response'', PStr ''hi'')])),
         ([], [''http://localhost:6000/a2a'', ''http://localhost:6000'']))
   \<and> try_post local_client scripted_post (message_payload hello_message)
        ([Inl (Exception connection_refused),
          Inr (json_response 500 [] (PDict [(''response'', PStr ''hi'')]))], [])
      = (Inr (PDict [(''response'', PStr ''hi''), (''_http_status'', PInt 500)]),
         ([], [''http://localhost:6000/a2a'', ''http://localhost:6000'']))"
proof -
  let ?r = "json_response 500 [] (PDict [(''response'', PStr ''hi'')])"
  let ?atts = "attempts scripted_post (message_payload hello_message) (timeout local_client)
                 (candidates (base_url local_client))
                 ([Inl (Exception connection_refused), Inr ?r], [])"
  have h1: "1 < length (candidates (base_url local_client))"
    by (simp add: local_candidates)
  have h0: "fst (?atts ! 0) = Inl (Exception connection_refused)"
    by (simp add: local_timeout run_refused_then_answered)
  then have h2: "\<forall>i<1. \<exists>e. fst (?atts ! i) = Inl (Exception e)"
    by simp
  have h3: "?atts ! 1 = (Inr ?r, ([], [''http://localhost:6000/a2a'', ''http://localhost:6000'']))"
    by (simp add: local_timeout run_refused_then_answered)
  from try_post_first_answer_is_final [OF h1 h2 h3] h0 h3 show ?thesis
    by (simp add: decode_hi)
qed

section \<open>Failures of the transport\<close>

text \<open>
  C7. When every candidate attempt raises a transport exception (an \<^verbatim>\<open>Exception\<close>), the
  exception of the last attempt is the one that \<^verbatim>\<open>_try_post\<close> raises; and when it is not a
  timeout, \<^verbatim>\<open>send_message\<close> turns it into a reply whose text is \<^verbatim>\<open>[error] \<close>, the class name
  of the exception, a colon and its message, with the conversation id of the outbound
  message.
\<close>

theorem last_exception_surfaces:
  assumes "\<forall>a \<in> set (attempts post (message_payload message) (timeout self)
                        (candidates (base_url self)) w). \<exists>e. fst a = Inl (Exception e)"
      and "last (attempts post (message_payload message) (timeout self)
                   (candidates (base_url self)) w) = (Inl (Exception e), w')"
  shows "try_post self post (message_payload message) w = (Inl (Exception e), w')
         \<and> (\<not> exn_timeout e \<longrightarrow>
              send_message self py_str post message w
                = (Inr (mk_response (''[error] '' @ exn_class e @ '': '' @ exn_msg e)
                          (opt_str (conversation_id message))), w'))"
proof -
  have "try_post self post (message_payload message) w = (Inl (Exception e), w')"
    unfolding try_post_def
    by (rule try_candidates_all_raise [OF candidates_nonempty assms])
  then show ?thesis
    by (simp add: send_message_def send_attempt_def)
qed

theorem last_exception_surfaces_witness:
  "map fst (attempts scripted_post (message_payload hello_message) (timeout local_client)
              (candidates (base_url local_client)) ([Inl (Exception read_timeout)], []))
     = [Inl (Exception read_timeout), Inl (Exception connection_refused),
        Inl (Exception connection_refused), Inl (Exception connection_refused),
        Inl (Exception connection_refused)]
   \<and> last (attempts scripted_post (message_payload hello_message) (timeout local_client)
           (candidates (base_url local_client)) ([Inl (Exception read_timeout)], []))
     = (Inl (Exception connection_refused),
        ([], [''http://localhost:6000/a2a'', ''http://localhost:6000'',
              ''http://localhost:6000/send'', ''http://localhost:6000/message'',
              ''http://localhost:6000/messages'']))
   \<and> \<not> exn_timeout connection_refused
   \<and> try_post local_client scripted_post (message_payload hello_message)
        ([Inl (Exception read_timeout)], [])
      = (Inl (Exception connection_refused),
         ([], [''http://localhost:6000/a2a'', ''http://localhost:6000'',
               ''http://localhost:6000/send'', ''http://localhost:6000/message'',
               ''http://localhost:6000/messages'']))
   \<and> send_message local_client type_str scripted_post hello_message
        ([Inl (Exception read_timeout)], [])
      = (Inr (mk_response ''[error] ConnectionError: connection refused'' (PStr ''c1'')),
         ([], [''http://localhost:6000/a2a'', ''http://localhost:6000'',
               ''http://localhost:6000/send'', ''http://localhost:6000/message'',
               ''http://localhost:6000/messages'']))"
proof -
  let ?atts = "attempts scripted_post (message_payload hello_message) (timeout local_client)
                 (candidates (base_url local_client)) ([Inl (Exception read_timeout)], [])"
  let ?w = "([] :: (exn + http_response) list,
             [''http://localhost:6000/a2a'', ''http://localhost:6000'',
              ''http://localhost:6000/send'', ''http://localhost:6000/message'',
              ''http://localhost:6000/messages''])"
  have h0: "map fst ?atts
              = [Inl (Exception read_timeout), Inl (Exception connection_refused),
                 Inl (Exception connection_refused), Inl (Exception connection_refused),
                 Inl (Exception connection_refused)]"
    by (simp add: local_timeout run_timeout_then_refused)
  have h1: "\<forall>a \<in> set ?atts. \<exists>e. fst a = Inl (Exception e)"
    by (simp add: local_timeout run_timeout_then_refused)
  have h2: "last ?atts = (Inl (Exception connection_refused), ?w)"
    by (simp add: local_timeout run_timeout_then_refused)
  have h3: "\<not> exn_timeout connection_refused"
    by (simp add: connection_refused_def)
  from last_exception_surfaces [OF h1 h2, of type_str] h0 h2 h3 show ?thesis
    by (simp add: connection_refused_def hello_message_def opt_str_def)
qed

text \<open>
  C6. When every candidate attempt raises a timeout, \<^verbatim>\<open>send_message\<close> returns the reply
  whose text is the timeout marker \<^verbatim>\<open>[error] request timeout\<close> and whose conversation id is
  that of the outbound message.
\<close>

theorem timeout_reply:
  assumes "\<forall>a \<in> set (attempts post (message_payload message) (timeout self)
                        (candidates (base_url self)) w).
             \<exists>e. fst a = Inl (Exception e) \<and> exn_timeout e"
  shows "send_message self py_str post message w
           = (Inr (mk_response ''[error] request timeout'' (opt_str (conversation_id message))),
              snd (last (attempts post (message_payload message) (timeout self)
                           (candidates (base_url self)) w)))"
proof -
  let ?atts = "attempts post (message_payload message) (timeout self)
                 (candidates (base_url self)) w"
  have ne: "?atts \<noteq> []"
    using candidates_nonempty [of "base_url self"]
      length_attempts [of post "message_payload message" "timeout self"
        "candidates (base_url self)" w]
    by auto
  then have "last ?atts \<in> set ?atts" by simp
  with assms obtain e where e: "fst (last ?atts) = Inl (Exception e)" "exn_timeout e"
    by blast
  then have l: "last ?atts = (Inl (Exception e), snd (last ?atts))"
    by (metis prod.collapse)
  have "\<forall>a \<in> set ?atts. \<exists>e. fst a = Inl (Exception e)"
    using assms by blast
  then have "try_post self post (message_payload message) w
               = (Inl (Exception e), snd (last ?atts))"
    unfolding try_post_def
    using l by (rule try_candidates_all_raise [OF candidates_nonempty])
  with e show ?thesis
    by (simp add: send_message_def send_attempt_def)
qed

theorem timeout_reply_witness:
  "exn_timeout read_timeout
   \<and> set (map fst (attempts scripted_post (message_payload hello_message) (timeout local_client)
                      (candidates (base_url local_client))
                      ([Inl (Exception read_timeout), Inl (Exception read_timeout),
                        Inl (Exception read_timeout), Inl (Exception read_timeout),
                        Inl (Exception read_timeout)], [])))
      = {Inl (Exception read_timeout)}
   \<and> send_message local_client type_str scripted_post hello_message
        ([Inl (Exception read_timeout), Inl (Exception read_timeout),
          Inl (Exception read_timeout), Inl (Exception read_timeout),
          Inl (Exception read_timeout)], [])
      = (Inr (mk_response ''[error] request timeout'' (PStr ''c1'')),
         ([], [''http://localhost:6000/a2a'', ''http://localhost:6000'',
               ''http://localhost:6000/send'', ''http://localhost:6000/message'',
               ''http://localhost:6000/messages'']))"
proof -
  let ?w0 = "([Inl (Exception read_timeout), Inl (Exception read_timeout),
               Inl (Exception read_timeout), Inl (Exception read_timeout),
               Inl (Exception read_timeout)] :: (exn + http_response) list,
              [] :: string list)"
  let ?atts = "attempts scripted_post (message_payload hello_message) (timeout local_client)
                 (candidates (base_url local_client)) ?w0"
  have t: "exn_timeout read_timeout"
    by (simp add: read_timeout_def)
  have s: "set (map fst ?atts) = {Inl (Exception read_timeout)}"
    by (simp add: local_timeout run_all_timeouts)
  have h: "\<forall>a \<in> set ?atts. \<exists>e. fst a = Inl (Exception e) \<and> exn_timeout e"
    using t by (simp add: local_timeout run_all_timeouts)
  from timeout_reply [OF h, of type_str] t s show ?thesis
    by (simp add: local_timeout run_all_timeouts hello_message_def opt_str_def)
qed

section \<open>What leaves \<^verbatim>\<open>send_message\<close>\<close>

text \<open>
  C1 says that \<^verbatim>\<open>send_message\<close> returns a reply whatever the transport raises. Its
  handlers are \<^verbatim>\<open>except requests.Timeout\<close> and \<^verbatim>\<open>except Exception\<close>, and so is the handler
  in the loop of \<^verbatim>\<open>_try_post\<close>: a \<^verbatim>\<open>KeyboardInterrupt\<close> raised while the first candidate is
  posted to is taken by none of them. It ends the loop after that one attempt and leaves
  \<^verbatim>\<open>send_message\<close>, which returns no reply.
\<close>

theorem keyboard_interrupt_leaves_send_message_counterexample:
  "send_message local_client type_str scripted_post hello_message ([Inl keyboard_interrupt], [])
     = (Inl keyboard_interrupt, ([], [''http://localhost:6000/a2a'']))"
  by (simp add: send_message_def send_attempt_def try_post_def local_candidates local_timeout
      scripted_post_def mk_request_def keyboard_interrupt_def)

text \<open>
  C1, amended. For every outbound message and every behaviour of the transport in which
  each attempt returns a response, of any payload, or raises an instance of \<^verbatim>\<open>Exception\<close>
  (a timeout or any other; not a bare \<^verbatim>\<open>BaseException\<close> such as \<^verbatim>\<open>KeyboardInterrupt\<close> or
  \<^verbatim>\<open>SystemExit\<close>), \<^verbatim>\<open>send_message\<close> returns a reply and raises nothing; and whenever the
  delivery fails at the transport, that is whenever \<^verbatim>\<open>_try_post\<close> raises, the text of the
  reply begins with the error marker \<^verbatim>\<open>[error] \<close>.
\<close>

theorem send_message_replies_to_exceptions:
  assumes "\<forall>a \<in> set (attempts post (message_payload message) (timeout self)
                        (candidates (base_url self)) w).
             \<forall>c m. fst a \<noteq> Inl (BaseException c m)"
  shows "\<exists>reply w'. send_message self py_str post message w = (Inr reply, w')
     \<and> (isl (fst (try_post self post (message_payload message) w))
          \<longrightarrow> prefix ''[error] '' (tc_text (resp_content reply)))"
proof (cases "try_post self post (message_payload message) w")
  case (Pair res w1)
  show ?thesis
  proof (cases res)
    case (Inl x)
    have "fst (try_post self post (message_payload message) w) \<noteq> Inl (BaseException c m)"
      for c m
      unfolding try_post_def using assms by (rule try_candidates_no_base)
    with Pair Inl obtain e where x: "x = Exception e"
      by (cases x) auto
    with Pair Inl show ?thesis
      by (cases "exn_timeout e") (simp_all add: send_message_def send_attempt_def mk_response_def)
  next
    case (Inr data)
    show ?thesis
    proof (cases "extract_text_and_conv py_str data (opt_str (conversation_id message))")
      case (Inl e)
      with Pair Inr show ?thesis
        by (cases "exn_timeout e") (simp_all add: send_message_def send_attempt_def)
    next
      case (Inr reply)
      with Pair \<open>res = Inr data\<close> show ?thesis
        by (simp add: send_message_def send_attempt_def)
    qed
  qed
qed

theorem send_message_replies_to_exceptions_witness:
  "map fst (attempts scripted_post (message_payload hello_message) (timeout local_client)
              (candidates (base_url local_client)) ([Inl (Exception read_timeout)], []))
     = [Inl (Exception read_timeout), Inl (Exception connection_refused),
        Inl (Exception connection_refused), Inl (Exception connection_refused),
        Inl (Exception connection_refused)]
   \<and> isl (fst (try_post local_client scripted_post (message_payload hello_message)
               ([Inl (Exception read_timeout)], [])))
   \<and> (\<exists>reply w'. send_message local_client type_str scripted_post hello_message
                     ([Inl (Exception read_timeout)], []) = (Inr reply, w')
                  \<and> prefix ''[error] '' (tc_text (resp_content reply)))"
proof -
  let ?atts = "attempts scripted_post (message_payload hello_message) (timeout local_client)
                 (candidates (base_url local_client)) ([Inl (Exception read_timeout)], [])"
  have h0: "map fst ?atts
              = [Inl (Exception read_timeout), Inl (Exception connection_refused),
                 Inl (Exception connection_refused), Inl (Exception connection_refused),
                 Inl (Exception connection_refused)]"
    by (simp add: local_timeout run_timeout_then_refused)
  have h1: "\<forall>a \<in> set ?atts. \<forall>c m. fst a \<noteq> Inl (BaseException c m)"
    by (simp add: local_timeout run_timeout_then_refused)
  have "try_candidates scripted_post (message_payload hello_message) (timeout local_client)
          (candidates (base_url local_client)) None ([Inl (Exception read_timeout)], [])
        = (Inl (Exception connection_refused), snd (last ?atts))"
  proof (rule try_candidates_all_raise [OF candidates_nonempty])
    show "\<forall>a \<in> set ?atts. \<exists>e. fst a = Inl (Exception e)"
      by (simp add: local_timeout run_timeout_then_refused)
    show "last ?atts = (Inl (Exception connection_refused), snd (last ?atts))"
      by (simp add: local_timeout run_timeout_then_refused)
  qed
  then have h2: "isl (fst (try_post local_client scripted_post (message_payload hello_message)
                             ([Inl (Exception read_timeout)], [])))"
    by (simp add: try_post_def)
  with send_message_replies_to_exceptions
         [OF h1, of type_str] h0
  show ?thesis by blast
qed

section \<open>Decoding the response\<close>

text \<open>
  C8 says that the body is decoded exactly when the content type indicates JSON, and that
  the mapping handed to the normaliser carries the status code of the response under the
  reserved key. Three responses show otherwise. A body that decodes to a mapping holding
  \<^verbatim>\<open>_http_status\<close> already keeps its own value, 999, where the status is 200
  (\<^verbatim>\<open>setdefault\<close> does not overwrite). A response of content type JSON whose body does not
  decode is wrapped as \<^verbatim>\<open>{"response": <body>}\<close>. And a body that decodes to a list is handed
  on as it is, with no annotation.
\<close>

theorem status_annotation_counterexample:
  "decode_response (json_response 200 ([CHR 0x7B, CHR 0x22] @ ''_http_status'' @ [CHR 0x22]
                                       @ '': 999}'')
                      (PDict [(''_http_status'', PInt 999)]))
     = PDict [(''_http_status'', PInt 999)]
   \<and> dict_get [(''_http_status'', PInt 999)] ''_http_status'' \<noteq> PInt 200
   \<and> decode_response \<lparr>status_code = 502, content_type_header = Some ''application/json'',
                       body_text = ''<html>Bad Gateway</html>'',
                       body_json = Inl json_decode_error\<rparr>
     = PDict [(''response'', PStr ''<html>Bad Gateway</html>''), (''_http_status'', PInt 502)]
   \<and> decode_response (json_response 200 ''[1]'' (PList [PInt 1])) = PList [PInt 1]"
  by (simp add: decode_response_def json_response_def py_lower_def lower_char_def
      dict_setdefault_def dict_get_def)

text \<open>
  C8, amended. For every response that \<^verbatim>\<open>_try_post\<close> accepts: the body is decoded as
  structured data when the content type contains \<^verbatim>\<open>application/json\<close> (in any letter case)
  and the decoding succeeds; otherwise, for another content type or a body that fails to
  decode, it is wrapped as \<^verbatim>\<open>{"response": <raw body text>}\<close>. When the value so obtained is
  a mapping without the reserved key \<^verbatim>\<open>_http_status\<close>, the status code of the response is
  added under that key; a mapping that has the key keeps its own value, and a decoded
  value that is not a mapping is handed to the normaliser as it is.
\<close>

theorem response_decoding:
  "(let ctype = py_lower (case content_type_header r of None \<Rightarrow> [] | Some h \<Rightarrow> h);
        wrapped = PDict [(''response'', PStr (body_text r)),
                         (''_http_status'', PInt (status_code r))]
    in (\<not> sublist ''application/json'' ctype \<longrightarrow> decode_response r = wrapped)
     \<and> (sublist ''application/json'' ctype \<longrightarrow>
          (case body_json r of
             Inl e \<Rightarrow> decode_response r = wrapped
           | Inr (PDict d) \<Rightarrow>
               decode_response r =
                 PDict (if ''_http_status'' \<in> fst ` set d then d
                        else d @ [(''_http_status'', PInt (status_code r))])
           | Inr v \<Rightarrow> decode_response r = v)))"
proof -
  let ?ctype = "py_lower (case content_type_header r of None \<Rightarrow> [] | Some h \<Rightarrow> h)"
  let ?wrapped = "PDict [(''response'', PStr (body_text r)),
                         (''_http_status'', PInt (status_code r))]"
  have wrap: "PDict (dict_setdefault [(''response'', PStr (body_text r))] ''_http_status''
                       (PInt (status_code r))) = ?wrapped"
    by (simp add: dict_setdefault_def)
  have other: "decode_response r = ?wrapped" if "\<not> sublist ''application/json'' ?ctype"
    using that wrap by (simp add: decode_response_def py_in_sublist)
  have json: "(case body_json r of
                 Inl e \<Rightarrow> decode_response r = ?wrapped
               | Inr (PDict d) \<Rightarrow>
                   decode_response r =
                     PDict (if ''_http_status'' \<in> fst ` set d then d
                            else d @ [(''_http_status'', PInt (status_code r))])
               | Inr v \<Rightarrow> decode_response r = v)"
    if j: "sublist ''application/json'' ?ctype"
  proof (cases "body_json r")
    case (Inl e)
    with j wrap show ?thesis
      by (simp add: decode_response_def py_in_sublist)
  next
    case (Inr v)
    show ?thesis
    proof (cases v)
      case (PDict d)
      have "dict_setdefault d ''_http_status'' (PInt (status_code r)) =
              (if ''_http_status'' \<in> fst ` set d then d
               else d @ [(''_http_status'', PInt (status_code r))])"
      proof (cases "map_of d ''_http_status''")
        case None
        then have "''_http_status'' \<notin> fst ` set d"
          by (simp add: map_of_eq_None_iff)
        with None show ?thesis
          by (simp add: dict_setdefault_def)
      next
        case (Some x)
        then have "''_http_status'' \<in> fst ` set d"
          by (metis map_of_eq_None_iff option.distinct(1))
        with Some show ?thesis
          by (simp add: dict_setdefault_def)
      qed
      with j Inr PDict show ?thesis
        by (simp add: decode_response_def py_in_sublist)
    qed (use j Inr in \<open>simp_all add: decode_response_def py_in_sublist\<close>)
  qed
  from other json show ?thesis
    by (simp add: Let_def)
qed

theorem response_decoding_witness:
  "\<not> sublist ''application/json'' (py_lower ''text/html'')
   \<and> decode_response \<lparr>status_code = 404, content_type_header = Some ''text/html'',
                       body_text = ''not found'', body_json = Inl json_decode_error\<rparr>
     = PDict [(''response'', PStr ''not found''), (''_http_status'', PInt 404)]
   \<and> sublist ''application/json'' (py_lower ''Application/JSON'')
   \<and> decode_response \<lparr>status_code = 200, content_type_header = Some ''Application/JSON'',
                       body_text = [CHR 0x7B, CHR 0x22] @ ''text'' @ [CHR 0x22] @ '': ''
                                   @ [CHR 0x22] @ ''hi'' @ [CHR 0x22] @ ''}'',
                       body_json = Inr (PDict [(''text'', PStr ''hi'')])\<rparr>
     = PDict [(''text'', PStr ''hi''), (''_http_status'', PInt 200)]"
proof -
  let ?r1 = "\<lparr>status_code = 404, content_type_header = Some ''text/html'',
              body_text = ''not found'', body_json = Inl json_decode_error\<rparr>"
  let ?r2 = "\<lparr>status_code = 200, content_type_header = Some ''Application/JSON'',
              body_text = [CHR 0x7B, CHR 0x22] @ ''text'' @ [CHR 0x22] @ '': ''
                          @ [CHR 0x22] @ ''hi'' @ [CHR 0x22] @ ''}'',
              body_json = Inr (PDict [(''text'', PStr ''hi'')])\<rparr>"
  have h1: "\<not> sublist ''application/json'' (py_lower ''text/html'')"
    by (simp add: py_in_sublist [symmetric] py_lower_def lower_char_def)
  have "py_lower ''Application/JSON'' = ''application/json''"
    by code_simp
  then have h2: "sublist ''application/json'' (py_lower ''Application/JSON'')"
    by simp
  from response_decoding [of ?r1] h1
  have c1: "decode_response ?r1
              = PDict [(''response'', PStr ''not found''), (''_http_status'', PInt 404)]"
    by (simp add: Let_def)
  from response_decoding [of ?r2] h2
  have c2: "decode_response ?r2 = PDict [(''text'', PStr ''hi''), (''_http_status'', PInt 200)]"
    by (simp add: Let_def)
  from h1 c1 h2 c2 show ?thesis by blast
qed

end
